theory Spec2Isabelle
  imports Main
begin

section \<open>Shared vocabulary: fetch outcomes and observable effects\<close>

text \<open>
  The handlers of the two pages are asynchronous functions that read and replace React
  state and talk to the backend through \<^verbatim>\<open>fetch\<close>. They are modelled by explicit state
  passing: a handler takes the state it reads and the outcome of each \<^verbatim>\<open>fetch\<close> it awaits,
  and returns the new state together with the effects it produced, in program order.

  A \<^verbatim>\<open>fetch\<close> promise either rejects (transport failure) or resolves with a response.
  A response carries its HTTP status; \<^verbatim>\<open>response.ok\<close> is true for the statuses 200 to 299.
  The body is \<open>None\<close> where \<^verbatim>\<open>response.json()\<close> would reject.
\<close>

record 'a response =
  status :: nat
  json :: "'a option"

datatype 'a fetch_result = Rejected | Resolved "'a response"

definition ok :: "'a response \<Rightarrow> bool" where
  "ok r = (200 \<le> status r \<and> status r \<le> 299)"

datatype vote = Up | Down

record vote_body =
  user_id :: string
  vote_type :: "vote option"
  is_comment :: bool

datatype request =
    PostVote int vote_body      \<comment> \<open>POST /hubs/posts/<itemId>/vote\<close>
  | DeleteItem int              \<comment> \<open>DELETE /hubs/posts/<id>\<close>
  | GetOrganization string      \<comment> \<open>GET /organizations/<id>\<close>
  | GetMembers string           \<comment> \<open>GET /organizations/<id>/members\<close>
  | GetCohorts string           \<comment> \<open>GET /cohorts/?org_id=<id>\<close>
  | GetCourses string           \<comment> \<open>GET /courses/?org_id=<id>\<close>

datatype effect =
    Alert string
  | ConsoleError string
  | Fetch request
  | RouterBack

fun is_fetch :: "effect \<Rightarrow> bool" where
  "is_fetch (Fetch _) = True"
| "is_fetch _ = False"

section \<open>Post page: data model\<close>

text \<open>
  \<^verbatim>\<open>Votable\<close>, \<^verbatim>\<open>Comment\<close> and \<^verbatim>\<open>Post\<close> are the interfaces of the page; the two
  extensions are record extensions, so that \<^verbatim>\<open>updateItem\<close> and \<^verbatim>\<open>revertItem\<close>, which the
  source applies to a post or to a comment alike, are one polymorphic function each.
  The field \<^verbatim>\<open>id\<close> is written \<open>id'\<close> (\<open>id\<close> is the identity function of HOL) and the
  fields of \<^verbatim>\<open>Post\<close> that \<^verbatim>\<open>Comment\<close> also has carry the prefix \<open>post_\<close>.
  \<^verbatim>\<open>votes\<close> is a JavaScript number holding an integer score; it is modelled as an
  unbounded integer (the model does not cover scores beyond 2^53, where doubles round).
\<close>

record votable =
  id' :: int
  votes :: int
  user_vote :: "vote option"

record comment = votable +
  content :: string
  created_at :: string
  author :: string

record post = votable +
  hub_id :: int
  title :: string
  post_content :: string
  post_type :: string
  post_created_at :: string
  post_author :: string
  comments :: "comment list"

text \<open>The value of \<^verbatim>\<open>useAuth().user\<close>; the handlers read its \<^verbatim>\<open>id\<close> only.\<close>

record auth_user =
  auth_id :: string

section \<open>Post page: \<^verbatim>\<open>handleVote\<close>\<close>

text \<open>
  \<^verbatim>\<open>handleVote\<close> declares two local variables, \<^verbatim>\<open>originalVote = null\<close> and
  \<^verbatim>\<open>voteChange = 0\<close>, which the updater passed to the first \<^verbatim>\<open>setPost\<close> assigns and which
  the request and the rollback read afterwards. They are the record \<open>closure\<close>, threaded
  through the updater.

  \<^verbatim>\<open>setPost\<close> does not promise to call the updater before it returns. React calls it at once
  when the component has no update pending (\<open>Eager\<close>) and otherwise queues it for the next
  render (\<open>Queued\<close>), as on the page that has just loaded its post. Line 138, which builds
  the request, runs right after \<^verbatim>\<open>setPost\<close> returns and before the \<^verbatim>\<open>await\<close>: under
  \<open>Queued\<close> it still reads the initial \<^verbatim>\<open>originalVote = null\<close>. The render has happened
  by the time the request settles, so the rollback reads the assigned values in both
  cases.
\<close>

datatype updater_schedule = Eager | Queued

record closure =
  originalVote :: "vote option"
  voteChange :: int

definition closure0 :: closure where
  "closure0 = \<lparr>originalVote = None, voteChange = 0\<rparr>"

text \<open>
  \<^verbatim>\<open>updateItem\<close> (lines 100 to 117): assigns both closure variables and returns the item
  with its two vote fields replaced.
\<close>

definition updateItem :: "vote \<Rightarrow> 'a votable_scheme \<Rightarrow> 'a votable_scheme \<times> closure" where
  "updateItem newVote item =
     (let ov = user_vote item in
      if ov = Some newVote then
        (let vc = (if newVote = Up then - 1 else 1) in
         (item\<lparr>votes := votes item + vc, user_vote := None\<rparr>,
          \<lparr>originalVote = ov, voteChange = vc\<rparr>))
      else if ov \<noteq> None then
        (let vc = (if newVote = Up then 2 else - 2) in
         (item\<lparr>votes := votes item + vc, user_vote := Some newVote\<rparr>,
          \<lparr>originalVote = ov, voteChange = vc\<rparr>))
      else
        (let vc = (if newVote = Up then 1 else - 1) in
         (item\<lparr>votes := votes item + vc, user_vote := Some newVote\<rparr>,
          \<lparr>originalVote = ov, voteChange = vc\<rparr>)))"

text \<open>
  \<^verbatim>\<open>prevPost.comments.map(c => c.id === itemId ? updateItem(c) : c)\<close> (lines 124 to 126):
  the array is walked from left to right, and every call of \<^verbatim>\<open>updateItem\<close> overwrites the
  closure variables.
\<close>

fun update_comments :: "int \<Rightarrow> vote \<Rightarrow> closure \<Rightarrow> comment list \<Rightarrow> comment list \<times> closure" where
  "update_comments itemId newVote cl [] = ([], cl)"
| "update_comments itemId newVote cl (c # cs) =
     (if id' c = itemId then
        (let (c', cl') = updateItem newVote c;
             (cs', cl'') = update_comments itemId newVote cl' cs
         in (c' # cs', cl''))
      else
        (let (cs', cl'') = update_comments itemId newVote cl cs
         in (c # cs', cl'')))"

text \<open>The updater of the first \<^verbatim>\<open>setPost\<close> (lines 97 to 129).\<close>

definition optimisticUpdate ::
  "int \<Rightarrow> bool \<Rightarrow> vote \<Rightarrow> post option \<Rightarrow> post option \<times> closure" where
  "optimisticUpdate itemId isComment newVote prevPost =
     (case prevPost of
        None \<Rightarrow> (None, closure0)
      | Some p \<Rightarrow>
          if \<not> isComment then
            (let (p', cl) = updateItem newVote p in (Some p', cl))
          else
            (let (cs', cl) = update_comments itemId newVote closure0 (comments p)
             in (Some (p\<lparr>comments := cs'\<rparr>), cl)))"

text \<open>\<^verbatim>\<open>revertItem\<close> (lines 158 to 162) and the updater of the second \<^verbatim>\<open>setPost\<close>.\<close>

definition revertItem :: "closure \<Rightarrow> 'a votable_scheme \<Rightarrow> 'a votable_scheme" where
  "revertItem cl item = item\<lparr>votes := votes item - voteChange cl, user_vote := originalVote cl\<rparr>"

definition revertUpdate :: "int \<Rightarrow> bool \<Rightarrow> closure \<Rightarrow> post option \<Rightarrow> post option" where
  "revertUpdate itemId isComment cl prevPost =
     (case prevPost of
        None \<Rightarrow> None
      | Some p \<Rightarrow>
          if \<not> isComment then Some (revertItem cl p)
          else Some (p\<lparr>comments :=
                       map (\<lambda>c. if id' c = itemId then revertItem cl c else c) (comments p)\<rparr>))"

text \<open>
  One run of the handler. \<open>after_click\<close> is the post state once the optimistic update has
  been applied (what the page shows while the request is in flight), \<open>after_response\<close> the
  state once the request has settled, \<open>effects\<close> what the run did besides, in order.
  No other update of the post happens between the two: one vote is in flight.
\<close>

record vote_run =
  after_click :: "post option"
  after_response :: "post option"
  effects :: "effect list"

definition handleVote ::
  "updater_schedule \<Rightarrow> auth_user option \<Rightarrow> post option \<Rightarrow> int \<Rightarrow> bool \<Rightarrow> vote
     \<Rightarrow> 'a fetch_result \<Rightarrow> vote_run" where
  "handleVote sched user prevPost itemId isComment newVote outcome =
     (case user of
        None \<Rightarrow>
          \<lparr>after_click = prevPost, after_response = prevPost,
           effects = [Alert ''Please log in to vote.'']\<rparr>
      | Some u \<Rightarrow>
          (let (post1, cl) = optimisticUpdate itemId isComment newVote prevPost;
               at_line_138 = (case sched of Eager \<Rightarrow> cl | Queued \<Rightarrow> closure0);
               finalVoteType =
                 (if originalVote at_line_138 = Some newVote then None else Some newVote);
               req = Fetch (PostVote itemId
                       \<lparr>user_id = auth_id u, vote_type = finalVoteType, is_comment = isComment\<rparr>);
               failed = (case outcome of Rejected \<Rightarrow> True | Resolved r \<Rightarrow> \<not> ok r)
           in if failed then
                \<lparr>after_click = post1,
                 after_response = revertUpdate itemId isComment cl post1,
                 effects = [req, ConsoleError ''Failed to submit vote:'',
                            Alert ''There was an error submitting your vote. Please try again.'']\<rparr>
              else
                \<lparr>after_click = post1, after_response = post1, effects = [req]\<rparr>))"

section \<open>Post page: \<^verbatim>\<open>handleDelete\<close>\<close>

text \<open>
  \<^verbatim>\<open>itemToDelete\<close> is the state \<^verbatim>\<open>{ id: number; isComment: boolean } | null\<close>.
  The handler awaits the \<^verbatim>\<open>DELETE\<close>; the \<^verbatim>\<open>try\<close> block does not read the response, so
  only a rejected promise reaches the \<^verbatim>\<open>catch\<close> block. The \<^verbatim>\<open>finally\<close> block clears
  \<^verbatim>\<open>itemToDelete\<close>.
\<close>

record delete_target =
  target_id :: int
  target_isComment :: bool

record delete_run =
  post_after :: "post option"
  itemToDelete_after :: "delete_target option"
  delete_effects :: "effect list"

definition handleDelete ::
  "delete_target option \<Rightarrow> post option \<Rightarrow> 'a fetch_result \<Rightarrow> delete_run" where
  "handleDelete itemToDelete prev outcome =
     (case itemToDelete of
        None \<Rightarrow> \<lparr>post_after = prev, itemToDelete_after = None, delete_effects = []\<rparr>
      | Some t \<Rightarrow>
          (case outcome of
             Rejected \<Rightarrow>
               \<lparr>post_after = prev, itemToDelete_after = None,
                delete_effects = [Fetch (DeleteItem (target_id t)),
                                  ConsoleError ''Failed to delete item:'',
                                  Alert ''Failed to delete. Please try again.'']\<rparr>
           | Resolved resp \<Rightarrow>
               if target_isComment t then
                 \<lparr>post_after =
                    (case prev of
                       None \<Rightarrow> None
                     | Some p \<Rightarrow>
                         Some (p\<lparr>comments := filter (\<lambda>c. id' c \<noteq> target_id t) (comments p)\<rparr>)),
                  itemToDelete_after = None,
                  delete_effects = [Fetch (DeleteItem (target_id t))]\<rparr>
               else
                 \<lparr>post_after = prev, itemToDelete_after = None,
                  delete_effects = [Fetch (DeleteItem (target_id t)), RouterBack]\<rparr>))"

section \<open>Admin page: data model\<close>

text \<open>
  Modelled from the spec: the types \<^verbatim>\<open>TeamMember\<close>, \<^verbatim>\<open>Course\<close> and \<^verbatim>\<open>Cohort\<close> are declared
  in the module \<^verbatim>\<open>@/types\<close>, which is not among the sources. A member of the organization
  has an id, an email and a role, and the organization's owner has the role \<^verbatim>\<open>'owner'\<close>;
  courses and cohorts have the fields that \<^verbatim>\<open>fetchSchool\<close> fills in. The field names
  carry a prefix where two records would share one.
\<close>

record TeamMember =
  member_id :: int
  email :: string
  role :: string

record Course =
  course_id :: int
  course_name :: string
  moduleCount :: nat
  description :: string

record Cohort =
  cohort_id :: int
  cohort_name :: string

record School =
  school_id :: int
  school_name :: string
  url :: string
  courses :: "Course list"
  cohorts :: "Cohort list"
  members :: "TeamMember list"

text \<open>
  The bodies of the four responses as \<^verbatim>\<open>fetchSchool\<close> reads them: the organization
  (\<open>org_id\<close> is the value of \<^verbatim>\<open>parseInt(schoolData.id)\<close>), and items with an id and a name.
  A body of the cohorts or courses request that is not an array is \<open>None\<close> (calling
  \<^verbatim>\<open>.map\<close> on it throws); a falsy body of the members request is \<open>None\<close>
  (\<^verbatim>\<open>membersData || []\<close>).
\<close>

record organization_json =
  org_id :: int
  org_name :: string
  org_slug :: string

record named_json =
  json_id :: int
  json_name :: string

text \<open>
  The two pieces of component state the aggregation writes, with their initial values
  \<^verbatim>\<open>useState(null)\<close> and \<^verbatim>\<open>useState(true)\<close>, and what the component returns for them
  (lines 381 to 401): the spinner, the text "School not found", or the dashboard.
\<close>

record admin_state =
  school :: "School option"
  loading :: bool

definition admin0 :: admin_state where
  "admin0 = \<lparr>school = None, loading = True\<rparr>"

datatype view = Spinner | SchoolNotFound | Dashboard School

definition render :: "admin_state \<Rightarrow> view" where
  "render st =
     (if loading st then Spinner
      else case school st of None \<Rightarrow> SchoolNotFound | Some s \<Rightarrow> Dashboard s)"

section \<open>Admin page: \<^verbatim>\<open>fetchSchool\<close>\<close>

text \<open>
  \<^verbatim>\<open>Promise.all\<close> is handed the four \<^verbatim>\<open>fetch\<close> promises, so the four requests are issued
  before any response is awaited, and it rejects as soon as one of them rejects. Every
  \<^verbatim>\<open>throw\<close> and every rejection inside the \<^verbatim>\<open>try\<close> block ends in the \<^verbatim>\<open>catch\<close> block, which
  logs and leaves \<^verbatim>\<open>school\<close> as it was; \<^verbatim>\<open>finally\<close> resets \<^verbatim>\<open>loading\<close>.
  \<open>in_flight\<close> is the state after \<^verbatim>\<open>setLoading(true)\<close>, \<open>settled\<close> the state at the end.
\<close>

record fetch_run =
  in_flight :: admin_state
  settled :: admin_state
  fetch_effects :: "effect list"

definition transformedSchool ::
  "string \<Rightarrow> organization_json \<Rightarrow> TeamMember list option \<Rightarrow> named_json list \<Rightarrow> named_json list
     \<Rightarrow> School" where
  "transformedSchool app_url schoolData membersData cohortsData coursesData =
     \<lparr>school_id = org_id schoolData,
      school_name = org_name schoolData,
      url = app_url @ ''/school/'' @ org_slug schoolData,
      courses = map (\<lambda>course. \<lparr>course_id = json_id course, course_name = json_name course,
                                moduleCount = 0, description = []\<rparr>) coursesData,
      cohorts = map (\<lambda>cohort. \<lparr>cohort_id = json_id cohort, cohort_name = json_name cohort\<rparr>)
                  cohortsData,
      members = (case membersData of None \<Rightarrow> [] | Some ms \<Rightarrow> ms)\<rparr>"

definition fetchSchool ::
  "string \<Rightarrow> string \<Rightarrow> admin_state
     \<Rightarrow> organization_json fetch_result
     \<Rightarrow> (TeamMember list option) fetch_result
     \<Rightarrow> (named_json list option) fetch_result
     \<Rightarrow> (named_json list option) fetch_result
     \<Rightarrow> fetch_run" where
  "fetchSchool app_url org st schoolResult membersResult cohortsResult coursesResult =
     (let reqs = [Fetch (GetOrganization org), Fetch (GetMembers org),
                  Fetch (GetCohorts org), Fetch (GetCourses org)];
          st1 = st\<lparr>loading := True\<rparr>;
          caught = \<lparr>in_flight = st1, settled = st1\<lparr>loading := False\<rparr>,
                    fetch_effects = reqs @ [ConsoleError ''Error fetching school:'']\<rparr>
      in case (schoolResult, membersResult, cohortsResult, coursesResult) of
           (Resolved schoolResponse, Resolved membersResponse,
            Resolved cohortsResponse, Resolved coursesResponse) \<Rightarrow>
              if \<not> ok schoolResponse then caught
              else if \<not> ok membersResponse then caught
              else if \<not> ok cohortsResponse then caught
              else if \<not> ok coursesResponse then caught
              else
                (case (json schoolResponse, json membersResponse,
                       json cohortsResponse, json coursesResponse) of
                   (Some schoolData, Some membersData, Some (Some cohortsData),
                    Some (Some coursesData)) \<Rightarrow>
                      \<lparr>in_flight = st1,
                       settled = st1\<lparr>school := Some (transformedSchool app_url schoolData
                                                     membersData cohortsData coursesData),
                                     loading := False\<rparr>,
                       fetch_effects = reqs\<rparr>
                 | _ \<Rightarrow> caught)
         | _ \<Rightarrow> caught)"

text \<open>A fetch succeeded: the promise resolved and the response has a status from 200 to 299.\<close>

definition succeeded :: "'a fetch_result \<Rightarrow> bool" where
  "succeeded r = (case r of Rejected \<Rightarrow> False | Resolved resp \<Rightarrow> ok resp)"

section \<open>Admin page: member selection\<close>

text \<open>
  \<^verbatim>\<open>isCurrentUser\<close> compares \<^verbatim>\<open>session?.user?.id\<close>, a string or undefined, with
  \<^verbatim>\<open>member.id.toString()\<close>. The session is the optional id string; \<open>toString\<close> writes an
  integer in decimal, as JavaScript does for an integral number.
\<close>

function show_nat :: "nat \<Rightarrow> string" where
  "show_nat n =
     (if n < 10 then [''0123456789'' ! n]
      else show_nat (n div 10) @ [''0123456789'' ! (n mod 10)])"
  by pat_completeness auto
termination
  by (relation "measure id") auto

declare show_nat.simps [simp del]

definition toString :: "int \<Rightarrow> string" where
  "toString i = (if i < 0 then CHR ''-'' # show_nat (nat (- i)) else show_nat (nat i))"

definition isCurrentUser :: "string option \<Rightarrow> TeamMember \<Rightarrow> bool" where
  "isCurrentUser session_user_id member = (session_user_id = Some (toString (member_id member)))"

text \<open>
  The two handlers that write \<^verbatim>\<open>selectedMembers\<close> from a checkbox. Each returns the new
  value of the state: \<^verbatim>\<open>handleMemberSelection\<close> from the previous one (lines 242 to 249),
  \<^verbatim>\<open>handleSelectAllMembers\<close> from the loaded school alone (lines 251 to 260).
\<close>

definition handleMemberSelection ::
  "string option \<Rightarrow> TeamMember \<Rightarrow> TeamMember list \<Rightarrow> TeamMember list" where
  "handleMemberSelection sess member prevSelected =
     (if isCurrentUser sess member then prevSelected
      else if list_ex (\<lambda>m. member_id m = member_id member) prevSelected
           then filter (\<lambda>m. member_id m \<noteq> member_id member) prevSelected
           else prevSelected @ [member])"

definition handleSelectAllMembers ::
  "string option \<Rightarrow> School option \<Rightarrow> bool \<Rightarrow> TeamMember list" where
  "handleSelectAllMembers sess sch checked =
     (if checked then
        (case sch of
           None \<Rightarrow> []
         | Some s \<Rightarrow> filter (\<lambda>member. role member \<noteq> ''owner'' \<and> \<not> isCurrentUser sess member)
                       (members s))
      else [])"

definition hasSelectableMembers :: "string option \<Rightarrow> School option \<Rightarrow> bool" where
  "hasSelectableMembers sess sch =
     (case sch of
        None \<Rightarrow> False
      | Some s \<Rightarrow> list_ex (\<lambda>member. role member \<noteq> ''owner'' \<and> \<not> isCurrentUser sess member)
                    (members s))"

text \<open>
  The members table (lines 552 to 575) has one row per element of \<^verbatim>\<open>school.members\<close>. The
  row's checkbox and its delete button are rendered under the condition
  \<^verbatim>\<open>member.role !== 'owner' && !isCurrentUser(member)\<close>, and the select-all checkbox under
  \<^verbatim>\<open>hasSelectableMembers()\<close>; a control that is not rendered cannot be operated. The events
  that write \<^verbatim>\<open>selectedMembers\<close> are: a click on a row's checkbox, a change of the
  select-all checkbox (checked or unchecked), a click on a row's delete button
  (\<^verbatim>\<open>handleDeleteMember\<close> empties the selection) and the confirmation of a removal
  (\<^verbatim>\<open>confirmDeleteMember\<close> leaves the selection empty). The session and the loaded school
  stay the same over a sequence of events.
\<close>

datatype selection_event =
    RowCheckbox TeamMember
  | SelectAllCheckbox bool
  | RowDeleteButton TeamMember
  | ConfirmDelete

definition row_controls_rendered :: "string option \<Rightarrow> School option \<Rightarrow> TeamMember \<Rightarrow> bool" where
  "row_controls_rendered sess sch member =
     (case sch of
        None \<Rightarrow> False
      | Some s \<Rightarrow> member \<in> set (members s)
                  \<and> role member \<noteq> ''owner'' \<and> \<not> isCurrentUser sess member)"

fun selection_step ::
  "string option \<Rightarrow> School option \<Rightarrow> TeamMember list \<Rightarrow> selection_event \<Rightarrow> TeamMember list" where
  "selection_step sess sch sel (RowCheckbox member) =
     (if row_controls_rendered sess sch member then handleMemberSelection sess member sel else sel)"
| "selection_step sess sch sel (SelectAllCheckbox checked) =
     (if hasSelectableMembers sess sch then handleSelectAllMembers sess sch checked else sel)"
| "selection_step sess sch sel (RowDeleteButton member) =
     (if row_controls_rendered sess sch member
      then (if isCurrentUser sess member then sel else [])
      else sel)"
| "selection_step sess sch sel ConfirmDelete = []"

text \<open>The selection after a sequence of events, from the initial \<^verbatim>\<open>useState([])\<close>.\<close>

definition run_selection ::
  "string option \<Rightarrow> School option \<Rightarrow> selection_event list \<Rightarrow> TeamMember list" where
  "run_selection sess sch evs = foldl (selection_step sess sch) [] evs"

definition selectable :: "string option \<Rightarrow> TeamMember \<Rightarrow> bool" where
  "selectable sess m = (role m \<noteq> ''owner'' \<and> \<not> isCurrentUser sess m)"

section \<open>The vote transition policy in the specification's words\<close>

text \<open>
  The specification gives the policy as a table over the item's vote before the click and
  the requested vote: un-vote (the same arrow again), switch (the other arrow) and new
  vote (no vote before). \<open>spec_voteChange\<close> is the change of the score and
  \<open>spec_user_vote\<close> the item's vote afterwards. They are compared with \<open>updateItem\<close> below.
\<close>

fun spec_voteChange :: "vote option \<Rightarrow> vote \<Rightarrow> int" where
  "spec_voteChange (Some Up) Up = - 1"
| "spec_voteChange (Some Down) Down = 1"
| "spec_voteChange (Some Down) Up = 2"
| "spec_voteChange (Some Up) Down = - 2"
| "spec_voteChange None Up = 1"
| "spec_voteChange None Down = - 1"

fun spec_user_vote :: "vote option \<Rightarrow> vote \<Rightarrow> vote option" where
  "spec_user_vote (Some Up) Up = None"
| "spec_user_vote (Some Down) Down = None"
| "spec_user_vote (Some Down) Up = Some Up"
| "spec_user_vote (Some Up) Down = Some Down"
| "spec_user_vote None Up = Some Up"
| "spec_user_vote None Down = Some Down"

text \<open>
  Used in the proofs only: the comments that carry the voted id have the same
  \<^verbatim>\<open>user_vote\<close>, which is so whenever the ids of the list are distinct.
\<close>

definition same_user_vote :: "int \<Rightarrow> comment list \<Rightarrow> bool" where
  "same_user_vote itemId cs =
     (\<forall>c\<in>set cs. \<forall>d\<in>set cs. id' c = itemId \<and> id' d = itemId \<longrightarrow> user_vote c = user_vote d)"

section \<open>Concrete values\<close>

definition sample_user :: auth_user where
  "sample_user = \<lparr>auth_id = ''42''\<rparr>"

definition comment_a :: comment where
  "comment_a = \<lparr>id' = 1, votes = 5, user_vote = Some Up,
                content = ''first'', created_at = ''2025-01-01'', author = ''ann''\<rparr>"

definition comment_b :: comment where
  "comment_b = \<lparr>id' = 2, votes = 0, user_vote = None,
                content = ''second'', created_at = ''2025-01-02'', author = ''bob''\<rparr>"

definition sample_post :: post where
  "sample_post = \<lparr>id' = 10, votes = 3, user_vote = Some Down,
                  hub_id = 7, title = ''question'', post_content = ''text'',
                  post_type = ''thread'', post_created_at = ''2025-01-01'', post_author = ''cy'',
                  comments = [comment_a, comment_b]\<rparr>"

definition http_200 :: "unit response" where
  "http_200 = \<lparr>status = 200, json = None\<rparr>"

definition http_500 :: "unit response" where
  "http_500 = \<lparr>status = 500, json = None\<rparr>"

definition m_owner :: TeamMember where
  "m_owner = \<lparr>member_id = 1, email = ''owner@school.org'', role = ''owner''\<rparr>"

definition m_self :: TeamMember where
  "m_self = \<lparr>member_id = 2, email = ''self@school.org'', role = ''admin''\<rparr>"

definition m_a :: TeamMember where
  "m_a = \<lparr>member_id = 3, email = ''a@school.org'', role = ''admin''\<rparr>"

definition m_b :: TeamMember where
  "m_b = \<lparr>member_id = 4, email = ''b@school.org'', role = ''admin''\<rparr>"

definition sample_school :: School where
  "sample_school = \<lparr>school_id = 1, school_name = ''school'', url = ''/school/one'',
                    courses = [], cohorts = [], members = [m_owner, m_self, m_a, m_b]\<rparr>"

definition org_200 :: "organization_json fetch_result" where
  "org_200 = Resolved \<lparr>status = 200,
                         json = Some \<lparr>org_id = 1, org_name = ''school'', org_slug = ''one''\<rparr>\<rparr>"

definition members_200 :: "(TeamMember list option) fetch_result" where
  "members_200 = Resolved \<lparr>status = 200, json = Some (Some [m_owner, m_self, m_a, m_b])\<rparr>"

definition cohorts_200 :: "(named_json list option) fetch_result" where
  "cohorts_200 = Resolved \<lparr>status = 200, json = Some (Some [])\<rparr>"

definition cohorts_500 :: "(named_json list option) fetch_result" where
  "cohorts_500 = Resolved \<lparr>status = 500, json = None\<rparr>"

definition courses_200 :: "(named_json list option) fetch_result" where
  "courses_200 = Resolved \<lparr>status = 200,
                             json = Some (Some [\<lparr>json_id = 5, json_name = ''course''\<rparr>])\<rparr>"

section \<open>Post page: what \<^verbatim>\<open>updateItem\<close> and the walk over the comments compute\<close>

lemma updateItem_fst:
  "fst (updateItem r item) =
     item\<lparr>votes := votes item + spec_voteChange (user_vote item) r,
          user_vote := spec_user_vote (user_vote item) r\<rparr>"
  by (cases "user_vote item"; cases r; cases "the (user_vote item)") (simp_all add: updateItem_def)

lemma updateItem_snd:
  "snd (updateItem r item) =
     \<lparr>originalVote = user_vote item, voteChange = spec_voteChange (user_vote item) r\<rparr>"
  by (cases "user_vote item"; cases r; cases "the (user_vote item)") (simp_all add: updateItem_def)

lemma spec_voteChange_nonzero: "spec_voteChange v r \<noteq> 0"
  by (cases "(v, r)" rule: spec_voteChange.cases) simp_all

lemma updateItem_changes: "fst (updateItem r c) \<noteq> c"
proof
  assume "fst (updateItem r c) = c"
  then have "votes (fst (updateItem r c)) = votes c" by simp
  then show False using spec_voteChange_nonzero[of "user_vote c" r]
    by (simp add: updateItem_fst)
qed

lemma revert_update_item:
  "user_vote d = user_vote c \<Longrightarrow> revertItem (snd (updateItem r d)) (fst (updateItem r c)) = c"
  by (simp add: updateItem_fst updateItem_snd revertItem_def)

lemma update_comments_fst:
  "fst (update_comments itemId r cl cs) =
     map (\<lambda>c. if id' c = itemId then fst (updateItem r c) else c) cs"
  by (induction cs arbitrary: cl) (simp_all add: split_beta)

text \<open>The closure variables after the walk are those of the last comment that carries the id.\<close>

lemma update_comments_snd:
  "snd (update_comments itemId r cl cs) =
     (if filter (\<lambda>c. id' c = itemId) cs = [] then cl
      else snd (updateItem r (last (filter (\<lambda>c. id' c = itemId) cs))))"
  by (induction cs arbitrary: cl) (simp_all add: split_beta)

lemma map_unchanged: "(\<And>x. x \<in> set xs \<Longrightarrow> f x = x) \<Longrightarrow> map f xs = xs"
  by (induction xs) simp_all

lemma closure_no_target:
  "\<forall>c\<in>set cs. id' c \<noteq> itemId \<Longrightarrow> snd (update_comments itemId r cl cs) = cl"
  by (simp add: update_comments_snd filter_empty_conv)

lemma closure_of_target:
  assumes "same_user_vote itemId cs" "c \<in> set cs" "id' c = itemId"
  shows "snd (update_comments itemId r cl cs) = snd (updateItem r c)"
proof -
  let ?ms = "filter (\<lambda>c. id' c = itemId) cs"
  from assms(2,3) have ne: "?ms \<noteq> []"
    by (auto simp: filter_empty_conv)
  then have "last ?ms \<in> set ?ms" by (rule last_in_set)
  then have "last ?ms \<in> set cs" "id' (last ?ms) = itemId" by auto
  with assms have "user_vote (last ?ms) = user_vote c"
    unfolding same_user_vote_def by blast
  with ne show ?thesis by (simp add: update_comments_snd updateItem_snd)
qed

lemma distinct_ids_same_user_vote:
  "distinct (map id' cs) \<Longrightarrow> same_user_vote itemId cs"
  unfolding same_user_vote_def by (auto simp: distinct_map dest: inj_onD)

text \<open>With distinct ids the walk replaces the one element that carries the id.\<close>

lemma map_target_update:
  assumes "distinct (map id' cs)" "i < length cs" "id' (cs ! i) = itemId"
  shows "map (\<lambda>c. if id' c = itemId then f c else c) cs = cs[i := f (cs ! i)]"
proof (rule nth_equalityI)
  show "length (map (\<lambda>c. if id' c = itemId then f c else c) cs) = length (cs[i := f (cs ! i)])"
    by simp
next
  fix j
  assume "j < length (map (\<lambda>c. if id' c = itemId then f c else c) cs)"
  then have j: "j < length cs" by simp
  show "map (\<lambda>c. if id' c = itemId then f c else c) cs ! j = cs[i := f (cs ! i)] ! j"
  proof (cases "j = i")
    case True
    with assms show ?thesis by simp
  next
    case False
    from assms(1,2) j have "(id' (cs ! i) = id' (cs ! j)) = (i = j)"
      using nth_eq_iff_index_eq[of "map id' cs" i j] by simp
    with False assms(3) have "id' (cs ! j) \<noteq> itemId" by auto
    with False j show ?thesis by simp
  qed
qed

lemma revert_comments:
  assumes "same_user_vote itemId cs"
  shows "map (\<lambda>c. if id' c = itemId then revertItem (snd (update_comments itemId r cl cs)) c else c)
           (fst (update_comments itemId r cl cs)) = cs"
proof -
  have "(if id' (if id' c = itemId then fst (updateItem r c) else c) = itemId
          then revertItem (snd (update_comments itemId r cl cs))
                 (if id' c = itemId then fst (updateItem r c) else c)
          else (if id' c = itemId then fst (updateItem r c) else c)) = c"
    if "c \<in> set cs" for c
  proof (cases "id' c = itemId")
    case True
    then have "snd (update_comments itemId r cl cs) = snd (updateItem r c)"
      using closure_of_target[OF assms that] by simp
    with True show ?thesis
      by (simp add: updateItem_fst revert_update_item[unfolded updateItem_fst])
  next
    case False
    then show ?thesis by simp
  qed
  then show ?thesis
    by (simp add: update_comments_fst comp_def map_unchanged)
qed

lemma after_click_post:
  "after_click (handleVote sched (Some u) (Some p) itemId False r out) =
     Some (fst (updateItem r p))"
  by (simp add: handleVote_def optimisticUpdate_def Let_def split_beta)

lemma after_click_comments:
  "after_click (handleVote sched (Some u) (Some p) itemId True r out) =
     Some (p\<lparr>comments := map (\<lambda>c. if id' c = itemId then fst (updateItem r c) else c) (comments p)\<rparr>)"
  by (simp add: handleVote_def optimisticUpdate_def Let_def split_beta update_comments_fst)

lemma failed_cases:
  "out = Rejected \<or> (\<exists>resp. out = Resolved resp \<and> \<not> ok resp) \<Longrightarrow>
   (case out of Rejected \<Rightarrow> True | Resolved r \<Rightarrow> \<not> ok r)"
  by auto

text \<open>
  The request of an authenticated run. Where the updater ran at once, the vote type comes
  from the \<^verbatim>\<open>originalVote\<close> that the updater assigned; where it was queued, line 138 reads
  \<^verbatim>\<open>null\<close> and the vote type is the requested vote whatever the item's vote was.
\<close>

lemma handleVote_fetches_eager:
  "filter is_fetch (effects (handleVote Eager (Some u) st itemId isComment r out)) =
     [Fetch (PostVote itemId
        \<lparr>user_id = auth_id u,
         vote_type = (if originalVote (snd (optimisticUpdate itemId isComment r st)) = Some r
                      then None else Some r),
         is_comment = isComment\<rparr>)]"
  by (simp add: handleVote_def Let_def split_beta)

lemma handleVote_fetches_queued:
  "filter is_fetch (effects (handleVote Queued (Some u) st itemId isComment r out)) =
     [Fetch (PostVote itemId
        \<lparr>user_id = auth_id u, vote_type = Some r, is_comment = isComment\<rparr>)]"
  by (simp add: handleVote_def Let_def split_beta closure0_def)

lemma original_vote_post:
  "originalVote (snd (optimisticUpdate itemId False r (Some p))) = user_vote p"
  by (simp add: optimisticUpdate_def split_beta updateItem_snd)

lemma original_vote_comment:
  "distinct (map id' (comments p)) \<Longrightarrow> c \<in> set (comments p) \<Longrightarrow> id' c = itemId \<Longrightarrow>
   originalVote (snd (optimisticUpdate itemId True r (Some p))) = user_vote c"
  by (simp add: optimisticUpdate_def split_beta updateItem_snd
        closure_of_target[OF distinct_ids_same_user_vote])

text \<open>
  Where the updater ran at once, the request is the one the handler's comment describes:
  its vote type is absent exactly when the voted item had the requested vote.
\<close>

lemma handleVote_request_eager:
  "\<exists>vt. filter is_fetch (effects (handleVote Eager (Some u) (Some p) itemId isComment r out)) =
           [Fetch (PostVote itemId
              \<lparr>user_id = auth_id u, vote_type = vt, is_comment = isComment\<rparr>)]
      \<and> (vt = None \<or> vt = Some r)
      \<and> (\<not> isComment \<longrightarrow> (vt = None \<longleftrightarrow> user_vote p = Some r))
      \<and> (\<forall>c. isComment \<and> distinct (map id' (comments p)) \<and> c \<in> set (comments p)
              \<and> id' c = itemId \<longrightarrow> (vt = None \<longleftrightarrow> user_vote c = Some r))"
  unfolding handleVote_fetches_eager
  by (auto simp: original_vote_post original_vote_comment)

section \<open>Post page: properties of \<^verbatim>\<open>handleVote\<close>\<close>

text \<open>
  C1. With a user logged in, the click applies the transition policy to the voted item:
  on its own arrow again the score loses the vote (minus one for up, plus one for down)
  and the item's vote becomes absent; on the other arrow the score moves by two towards
  the requested vote, which becomes the item's vote; with no vote before, the score moves
  by one and the requested vote becomes the item's vote. This holds for the post when the
  post is voted on, and for every comment that carries the voted id when a comment is
  voted on. The table is \<open>spec_voteChange\<close> and \<open>spec_user_vote\<close>.
\<close>

theorem handleVote_transition_policy:
  "after_click (handleVote sched (Some u) (Some p) itemId False r out) =
     Some (p\<lparr>votes := votes p + spec_voteChange (user_vote p) r,
              user_vote := spec_user_vote (user_vote p) r\<rparr>)
   \<and> (\<forall>i<length (comments p). id' (comments p ! i) = itemId \<longrightarrow>
        (\<exists>p'. after_click (handleVote sched (Some u) (Some p) itemId True r out) = Some p'
            \<and> comments p' ! i =
                (comments p ! i)\<lparr>votes := votes (comments p ! i)
                                      + spec_voteChange (user_vote (comments p ! i)) r,
                                  user_vote := spec_user_vote (user_vote (comments p ! i)) r\<rparr>))"
  by (simp add: after_click_post after_click_comments updateItem_fst)

theorem handleVote_transition_policy_witness:
  "0 < length (comments sample_post) \<and> id' (comments sample_post ! 0) = 1
   \<and> after_click (handleVote Queued (Some sample_user) (Some sample_post) 1 False Up
        (Rejected :: unit fetch_result)) = Some (sample_post\<lparr>votes := 5, user_vote := Some Up\<rparr>)
   \<and> (\<exists>p'. after_click (handleVote Queued (Some sample_user) (Some sample_post) 1 True Up
               (Rejected :: unit fetch_result)) = Some p'
         \<and> comments p' ! 0 = comment_a\<lparr>votes := 4, user_vote := None\<rparr>)"
proof -
  note t = handleVote_transition_policy
             [where sched = Queued and u = sample_user and p = sample_post and itemId = 1
                and r = Up and out = "Rejected :: unit fetch_result"]
  have l: "0 < length (comments sample_post)"
    by (simp add: sample_post_def)
  have c: "comments sample_post ! 0 = comment_a"
    by (simp add: sample_post_def)
  have i: "id' (comments sample_post ! 0) = 1"
    by (simp add: c comment_a_def)
  from t[THEN conjunct1]
  have a: "after_click (handleVote Queued (Some sample_user) (Some sample_post) 1 False Up
             (Rejected :: unit fetch_result)) = Some (sample_post\<lparr>votes := 5, user_vote := Some Up\<rparr>)"
    by (simp add: sample_post_def)
  from t[THEN conjunct2, rule_format, OF l i]
  have b: "\<exists>p'. after_click (handleVote Queued (Some sample_user) (Some sample_post) 1 True Up
                   (Rejected :: unit fetch_result)) = Some p'
             \<and> comments p' ! 0 = comment_a\<lparr>votes := 4, user_vote := None\<rparr>"
    by (simp add: c comment_a_def)
  show ?thesis using l i a b by blast
qed

text \<open>
  C2. When the request fails (the promise rejects, or the response has a status outside
  200 to 299) the rollback gives back the post exactly as it was before the click, with
  the votes and the user's vote of the post and of every comment. The vote is the only
  one in flight, and the id of a voted comment identifies it: the comments of the post
  have distinct ids.
\<close>

theorem handleVote_rollback_exact:
  assumes "out = Rejected \<or> (\<exists>resp. out = Resolved resp \<and> \<not> ok resp)"
      and "isComment \<longrightarrow> distinct (map id' (comments p))"
  shows "after_response (handleVote sched (Some u) (Some p) itemId isComment r out) = Some p"
proof (cases isComment)
  case False
  have "revertItem (snd (updateItem r p)) (fst (updateItem r p)) = p"
    by (rule revert_update_item) simp
  with False failed_cases[OF assms(1)] show ?thesis
    by (simp add: handleVote_def optimisticUpdate_def revertUpdate_def Let_def split_beta)
next
  case True
  with assms(2) have "same_user_vote itemId (comments p)"
    by (simp add: distinct_ids_same_user_vote)
  from revert_comments[OF this, of r closure0] True failed_cases[OF assms(1)] show ?thesis
    by (simp add: handleVote_def optimisticUpdate_def revertUpdate_def Let_def split_beta)
qed

theorem handleVote_rollback_exact_witness:
  "\<not> ok http_500 \<and> distinct (map id' (comments sample_post))
   \<and> after_click (handleVote Queued (Some sample_user) (Some sample_post) 1 True Up
        (Resolved http_500)) \<noteq> Some sample_post
   \<and> after_response (handleVote Queued (Some sample_user) (Some sample_post) 1 True Up
        (Resolved http_500)) = Some sample_post"
proof -
  have k: "\<not> ok http_500"
    by (simp add: ok_def http_500_def)
  have d: "distinct (map id' (comments sample_post))"
    by (simp add: sample_post_def comment_a_def comment_b_def)
  have f: "Resolved http_500 = Rejected \<or> (\<exists>resp. Resolved http_500 = Resolved resp \<and> \<not> ok resp)"
    using k by simp
  have c: "after_click (handleVote Queued (Some sample_user) (Some sample_post) 1 True Up
             (Resolved http_500)) \<noteq> Some sample_post"
    by (simp add: after_click_comments updateItem_def sample_post_def comment_a_def comment_b_def)
  from handleVote_rollback_exact[OF f, where isComment = True and itemId = 1 and p = sample_post
         and u = sample_user and r = Up and sched = Queued] d
  have "after_response (handleVote Queued (Some sample_user) (Some sample_post) 1 True Up
          (Resolved http_500)) = Some sample_post"
    by simp
  with k d c show ?thesis by simp
qed

text \<open>
  C3. In a post whose comments have distinct ids, a vote on the comment C that carries
  the voted id replaces C, at its index, by what \<open>updateItem\<close> makes of it, which differs
  from C. The list keeps its length and order, every other comment stays as it is, and so
  do the votes and the user's vote of the post and all its other fields.
\<close>

theorem handleVote_comment_isolation:
  assumes "distinct (map id' (comments p))"
      and "i < length (comments p)"
      and "id' (comments p ! i) = itemId"
  shows "\<exists>p'. after_click (handleVote sched (Some u) (Some p) itemId True r out) = Some p'
      \<and> p' = p\<lparr>comments := (comments p)[i := fst (updateItem r (comments p ! i))]\<rparr>
      \<and> votes p' = votes p \<and> user_vote p' = user_vote p
      \<and> length (comments p') = length (comments p)
      \<and> comments p' ! i \<noteq> comments p ! i
      \<and> (\<forall>j<length (comments p). j \<noteq> i \<longrightarrow> comments p' ! j = comments p ! j)"
  using assms(2)
  by (simp add: after_click_comments map_target_update[OF assms] updateItem_changes)

theorem handleVote_comment_isolation_witness:
  "distinct (map id' (comments sample_post)) \<and> 0 < length (comments sample_post)
   \<and> id' (comments sample_post ! 0) = 1
   \<and> (\<exists>p'. after_click (handleVote Queued (Some sample_user) (Some sample_post) 1 True Up
               (Rejected :: unit fetch_result)) = Some p'
         \<and> votes p' = 3 \<and> user_vote p' = Some Down
         \<and> comments p' = [comment_a\<lparr>votes := 4, user_vote := None\<rparr>, comment_b])"
proof -
  have d: "distinct (map id' (comments sample_post))"
    by (simp add: sample_post_def comment_a_def comment_b_def)
  have l: "0 < length (comments sample_post)"
    by (simp add: sample_post_def)
  have c: "comments sample_post = [comment_a, comment_b]"
    by (simp add: sample_post_def)
  have i: "id' (comments sample_post ! 0) = 1"
    by (simp add: c comment_a_def)
  have v: "votes sample_post = 3" "user_vote sample_post = Some Down"
    by (simp_all add: sample_post_def)
  have w: "fst (updateItem Up comment_a) = comment_a\<lparr>votes := 4, user_vote := None\<rparr>"
    by (simp add: updateItem_def comment_a_def)
  from handleVote_comment_isolation
         [OF d l i, where sched = Queued and u = sample_user and r = Up
            and out = "Rejected :: unit fetch_result"]
  obtain p' where
    p: "after_click (handleVote Queued (Some sample_user) (Some sample_post) 1 True Up
          (Rejected :: unit fetch_result)) = Some p'"
       "votes p' = votes sample_post" "user_vote p' = user_vote sample_post"
    and q: "p' = sample_post
              \<lparr>comments := (comments sample_post)[0 := fst (updateItem Up (comments sample_post ! 0))]\<rparr>"
    by blast
  from q have "comments p' = [comment_a\<lparr>votes := 4, user_vote := None\<rparr>, comment_b]"
    by (simp add: c w)
  with p v d l i show ?thesis by simp
qed

text \<open>
  C4. Without an authenticated user the handler changes nothing: the post state is the
  one it found, at the click and afterwards, no request is issued, and the login prompt
  is the only effect.
\<close>

theorem handleVote_unauthenticated:
  "handleVote sched None prevPost itemId isComment newVote outcome =
     \<lparr>after_click = prevPost, after_response = prevPost,
      effects = [Alert ''Please log in to vote.'']\<rparr>
   \<and> filter is_fetch (effects (handleVote sched None prevPost itemId isComment newVote outcome))
       = []"
  by (simp add: handleVote_def)

text \<open>
  C5. The request should carry no vote type exactly when the voted item had the requested
  vote, as the comment above line 138 says, and it does so where the updater ran at once
  (\<open>handleVote_request_eager\<close>). Where React queued the updater, as on the page that has
  just loaded, line 138 reads \<^verbatim>\<open>originalVote\<close> before the updater has assigned it. Here
  the first comment has the vote up and up is clicked on it: the page shows the vote
  taken back (score 4, no vote), the one request that is sent carries the vote type up,
  and the server answers 200.
\<close>

theorem handleVote_request_before_update:
  "comments sample_post = [comment_a, comment_b] \<and> id' comment_a = 1
   \<and> user_vote comment_a = Some Up \<and> ok http_200
   \<and> after_click (handleVote Queued (Some sample_user) (Some sample_post) 1 True Up
        (Resolved http_200))
       = Some (sample_post\<lparr>comments := [comment_a\<lparr>votes := 4, user_vote := None\<rparr>, comment_b]\<rparr>)
   \<and> filter is_fetch (effects (handleVote Queued (Some sample_user) (Some sample_post) 1 True Up
        (Resolved http_200))) =
       [Fetch (PostVote 1 \<lparr>user_id = ''42'', vote_type = Some Up, is_comment = True\<rparr>)]"
proof -
  have "filter is_fetch (effects (handleVote Queued (Some sample_user) (Some sample_post) 1 True Up
          (Resolved http_200))) =
        [Fetch (PostVote 1 \<lparr>user_id = ''42'', vote_type = Some Up, is_comment = True\<rparr>)]"
    by (simp add: handleVote_fetches_queued sample_user_def)
  moreover
  have "after_click (handleVote Queued (Some sample_user) (Some sample_post) 1 True Up
          (Resolved http_200))
        = Some (sample_post\<lparr>comments := [comment_a\<lparr>votes := 4, user_vote := None\<rparr>, comment_b]\<rparr>)"
    by (simp add: after_click_comments updateItem_def sample_post_def comment_a_def comment_b_def)
  moreover have "ok http_200"
    by (simp add: ok_def http_200_def)
  moreover have "comments sample_post = [comment_a, comment_b]"
    by (simp add: sample_post_def)
  moreover have "id' comment_a = 1" "user_vote comment_a = Some Up"
    by (simp_all add: comment_a_def)
  ultimately show ?thesis by simp
qed

text \<open>
  C10. With a user logged in, a vote on a comment whose id no comment of the post carries
  leaves the post and all its comments as they are: the optimistic update returns the
  post unchanged and the closure variables at their initial values (\<^verbatim>\<open>voteChange\<close> is 0),
  the rollback with these values changes nothing either, and for every outcome of the
  request the post is the same at the click and afterwards. The request is issued all
  the same, for that id, with the requested vote as its vote type.
\<close>

theorem handleVote_unmatched_comment:
  assumes "\<forall>c\<in>set (comments p). id' c \<noteq> itemId"
  shows "optimisticUpdate itemId True r (Some p) = (Some p, closure0)
       \<and> voteChange closure0 = 0
       \<and> revertUpdate itemId True closure0 (Some p) = Some p
       \<and> after_click (handleVote sched (Some u) (Some p) itemId True r out) = Some p
       \<and> after_response (handleVote sched (Some u) (Some p) itemId True r out) = Some p
       \<and> filter is_fetch (effects (handleVote sched (Some u) (Some p) itemId True r out)) =
           [Fetch (PostVote itemId
              \<lparr>user_id = auth_id u, vote_type = Some r, is_comment = True\<rparr>)]"
proof -
  have m: "map (\<lambda>c. if id' c = itemId then f c else c) (comments p) = comments p" for f
    using assms by (simp add: map_unchanged)
  have f: "fst (update_comments itemId r closure0 (comments p)) = comments p"
    by (simp add: update_comments_fst m)
  have s: "snd (update_comments itemId r closure0 (comments p)) = closure0"
    using assms by (rule closure_no_target)
  have o: "optimisticUpdate itemId True r (Some p) = (Some p, closure0)"
    by (simp add: optimisticUpdate_def split_beta f s)
  have rv: "revertUpdate itemId True closure0 (Some p) = Some p"
    by (simp add: revertUpdate_def m)
  have c0: "voteChange closure0 = 0" "originalVote closure0 = None"
    by (simp_all add: closure0_def)
  show ?thesis
    by (cases sched) (simp_all add: o rv c0 handleVote_def Let_def)
qed

theorem handleVote_unmatched_comment_witness:
  "comments sample_post = [comment_a, comment_b] \<and> id' comment_a \<noteq> 99 \<and> id' comment_b \<noteq> 99
   \<and> after_click (handleVote Eager (Some sample_user) (Some sample_post) 99 True Down
        (Resolved http_500)) = Some sample_post
   \<and> after_response (handleVote Eager (Some sample_user) (Some sample_post) 99 True Down
        (Resolved http_500)) = Some sample_post
   \<and> filter is_fetch (effects (handleVote Eager (Some sample_user) (Some sample_post) 99 True Down
        (Resolved http_500))) =
       [Fetch (PostVote 99 \<lparr>user_id = ''42'', vote_type = Some Down, is_comment = True\<rparr>)]"
proof -
  have c: "comments sample_post = [comment_a, comment_b]"
    by (simp add: sample_post_def)
  have i: "id' comment_a \<noteq> 99" "id' comment_b \<noteq> 99"
    by (simp_all add: comment_a_def comment_b_def)
  from c i have h: "\<forall>c\<in>set (comments sample_post). id' c \<noteq> 99"
    by simp
  from handleVote_unmatched_comment[OF h, where u = sample_user and r = Down
         and out = "Resolved http_500" and sched = Eager] c i
  show ?thesis by (simp add: sample_user_def)
qed

section \<open>Post page: \<^verbatim>\<open>handleDelete\<close> and the status of the response\<close>

lemma handleDelete_rejected:
  "handleDelete (Some t) prev Rejected =
     \<lparr>post_after = prev, itemToDelete_after = None,
      delete_effects = [Fetch (DeleteItem (target_id t)),
                        ConsoleError ''Failed to delete item:'',
                        Alert ''Failed to delete. Please try again.'']\<rparr>"
  by (simp add: handleDelete_def)

lemma handleDelete_resolved_comment:
  "target_isComment t \<Longrightarrow>
   handleDelete (Some t) (Some p) (Resolved resp) =
     \<lparr>post_after = Some (p\<lparr>comments := filter (\<lambda>c. id' c \<noteq> target_id t) (comments p)\<rparr>),
      itemToDelete_after = None,
      delete_effects = [Fetch (DeleteItem (target_id t))]\<rparr>"
  by (simp add: handleDelete_def)

text \<open>
  C9. The \<^verbatim>\<open>DELETE\<close> is issued for the comment's id, a rejected request leaves the list
  as it was and raises the notice, and a resolved one removes the comment by its id.
  The removal does not depend on the status of the response: the handler never reads
  \<^verbatim>\<open>response.ok\<close>, which \<^verbatim>\<open>fetchPost\<close>, \<^verbatim>\<open>handleVote\<close> and \<^verbatim>\<open>handleAddComment\<close> of the same
  page all do. Here the server answers 500 to the deletion of the comment with id 1: the
  comment is removed from the list and no notice is raised.
\<close>

theorem handleDelete_ignores_status:
  "\<not> ok http_500
   \<and> comments sample_post = [comment_a, comment_b] \<and> id' comment_a = 1
   \<and> handleDelete (Some \<lparr>target_id = 1, target_isComment = True\<rparr>) (Some sample_post)
        (Resolved http_500) =
       \<lparr>post_after = Some (sample_post\<lparr>comments := [comment_b]\<rparr>),
        itemToDelete_after = None,
        delete_effects = [Fetch (DeleteItem 1)]\<rparr>"
  by (simp add: handleDelete_def ok_def http_500_def sample_post_def comment_a_def comment_b_def)

section \<open>Admin page: properties of \<^verbatim>\<open>fetchSchool\<close>\<close>

lemma fetchSchool_in_flight:
  "in_flight (fetchSchool app org st r1 r2 r3 r4) = st\<lparr>loading := True\<rparr>"
  by (cases r1; cases r2; cases r3; cases r4)
     (simp_all add: fetchSchool_def Let_def split: option.splits)

lemma fetchSchool_requests:
  "filter is_fetch (fetch_effects (fetchSchool app org st r1 r2 r3 r4)) =
     [Fetch (GetOrganization org), Fetch (GetMembers org),
      Fetch (GetCohorts org), Fetch (GetCourses org)]"
  by (cases r1; cases r2; cases r3; cases r4)
     (simp_all add: fetchSchool_def Let_def split: option.splits)

text \<open>Whatever the state before: a failed fetch leaves \<^verbatim>\<open>school\<close> as it was.\<close>

lemma fetchSchool_failed:
  "\<not> (succeeded r1 \<and> succeeded r2 \<and> succeeded r3 \<and> succeeded r4) \<Longrightarrow>
   settled (fetchSchool app org st r1 r2 r3 r4) = st\<lparr>loading := False\<rparr>"
  by (cases r1; cases r2; cases r3; cases r4)
     (auto simp: fetchSchool_def Let_def succeeded_def split: option.splits)

text \<open>The dashboard is reached: four successful fetches with readable bodies load the school.\<close>

lemma fetchSchool_loaded:
  "render (settled (fetchSchool ''https://app'' ''1'' admin0
             org_200 members_200 cohorts_200 courses_200)) =
     Dashboard \<lparr>school_id = 1, school_name = ''school'', url = ''https://app/school/one'',
                courses = [\<lparr>course_id = 5, course_name = ''course'', moduleCount = 0,
                            description = []\<rparr>],
                cohorts = [], members = [m_owner, m_self, m_a, m_b]\<rparr>"
  by (simp add: fetchSchool_def Let_def ok_def render_def admin0_def transformedSchool_def
        org_200_def members_200_def cohorts_200_def courses_200_def)

text \<open>
  C6. For one organization id, starting from the component's initial state, the four
  requests (organization, members, cohorts, courses) are all issued, and the spinner is
  shown while they are in flight. The dashboard is rendered afterwards only if each of
  the four fetches resolved with a status from 200 to 299. If one of them rejected or
  came back with another status, \<^verbatim>\<open>school\<close> stays absent and the page shows "School not
  found": nothing of the three other responses is rendered.
\<close>

theorem fetchSchool_all_or_nothing:
  "filter is_fetch (fetch_effects (fetchSchool app org admin0 r1 r2 r3 r4)) =
     [Fetch (GetOrganization org), Fetch (GetMembers org),
      Fetch (GetCohorts org), Fetch (GetCourses org)]
   \<and> render (in_flight (fetchSchool app org admin0 r1 r2 r3 r4)) = Spinner
   \<and> ((\<exists>s. render (settled (fetchSchool app org admin0 r1 r2 r3 r4)) = Dashboard s) \<longrightarrow>
        succeeded r1 \<and> succeeded r2 \<and> succeeded r3 \<and> succeeded r4)
   \<and> (\<not> (succeeded r1 \<and> succeeded r2 \<and> succeeded r3 \<and> succeeded r4) \<longrightarrow>
        school (settled (fetchSchool app org admin0 r1 r2 r3 r4)) = None
        \<and> render (settled (fetchSchool app org admin0 r1 r2 r3 r4)) = SchoolNotFound)"
proof -
  have a: "render (settled (fetchSchool app org admin0 r1 r2 r3 r4)) = SchoolNotFound
         \<and> school (settled (fetchSchool app org admin0 r1 r2 r3 r4)) = None"
    if "\<not> (succeeded r1 \<and> succeeded r2 \<and> succeeded r3 \<and> succeeded r4)"
    using fetchSchool_failed[OF that, of app org admin0] by (simp add: render_def admin0_def)
  have b: "render (in_flight (fetchSchool app org admin0 r1 r2 r3 r4)) = Spinner"
    by (simp add: fetchSchool_in_flight render_def)
  have c: "succeeded r1 \<and> succeeded r2 \<and> succeeded r3 \<and> succeeded r4"
    if "render (settled (fetchSchool app org admin0 r1 r2 r3 r4)) = Dashboard s" for s
  proof (rule ccontr)
    assume "\<not> (succeeded r1 \<and> succeeded r2 \<and> succeeded r3 \<and> succeeded r4)"
    from a[OF this] that show False by simp
  qed
  from a b c fetchSchool_requests[of app org admin0 r1 r2 r3 r4] show ?thesis
    by blast
qed

theorem fetchSchool_all_or_nothing_witness:
  "succeeded org_200 \<and> succeeded members_200 \<and> \<not> succeeded cohorts_500 \<and> succeeded courses_200
   \<and> school (settled (fetchSchool ''https://app'' ''1'' admin0
                org_200 members_200 cohorts_500 courses_200)) = None
   \<and> render (settled (fetchSchool ''https://app'' ''1'' admin0
                org_200 members_200 cohorts_500 courses_200)) = SchoolNotFound"
proof -
  have s: "succeeded org_200" "succeeded members_200" "succeeded courses_200"
    by (simp_all add: succeeded_def ok_def org_200_def members_200_def courses_200_def)
  have n: "\<not> succeeded cohorts_500"
    by (simp add: succeeded_def ok_def cohorts_500_def)
  then have "\<not> (succeeded org_200 \<and> succeeded members_200 \<and> succeeded cohorts_500
                \<and> succeeded courses_200)"
    by simp
  with fetchSchool_all_or_nothing
         [where app = "''https://app''" and org = "''1''" and ?r1.0 = org_200
            and ?r2.0 = members_200 and ?r3.0 = cohorts_500 and ?r4.0 = courses_200]
  have "school (settled (fetchSchool ''https://app'' ''1'' admin0
                  org_200 members_200 cohorts_500 courses_200)) = None
        \<and> render (settled (fetchSchool ''https://app'' ''1'' admin0
                  org_200 members_200 cohorts_500 courses_200)) = SchoolNotFound"
    by blast
  with s n show ?thesis by simp
qed

section \<open>Admin page: properties of the member selection\<close>

lemma sample_current_user:
  "isCurrentUser (Some ''2'') m_self" "\<not> isCurrentUser (Some ''2'') m_owner"
  "\<not> isCurrentUser (Some ''2'') m_a" "\<not> isCurrentUser (Some ''2'') m_b"
  by (simp_all add: isCurrentUser_def toString_def show_nat.simps
        m_self_def m_owner_def m_a_def m_b_def)

lemma sample_roles:
  "role m_owner = ''owner''" "role m_self \<noteq> ''owner''" "role m_a \<noteq> ''owner''" "role m_b \<noteq> ''owner''"
  by (simp_all add: m_self_def m_owner_def m_a_def m_b_def)

text \<open>
  C7. Checking "select all" selects the members of the loaded school whose role is not
  \<^verbatim>\<open>'owner'\<close> and who are not the session's user, and no one else; unchecking it empties
  the selection. For the members owner, self, A, B, with self the session's user and A and
  B neither owner nor self, the selection is A, B.
\<close>

theorem select_all_members:
  "set (handleSelectAllMembers sess (Some s) True) =
     {m \<in> set (members s). role m \<noteq> ''owner'' \<and> \<not> isCurrentUser sess m}
   \<and> handleSelectAllMembers sess sch False = []
   \<and> (members s = [owner, self, a, b] \<and> role owner = ''owner'' \<and> isCurrentUser sess self
        \<and> role a \<noteq> ''owner'' \<and> \<not> isCurrentUser sess a
        \<and> role b \<noteq> ''owner'' \<and> \<not> isCurrentUser sess b
      \<longrightarrow> handleSelectAllMembers sess (Some s) True = [a, b])"
  unfolding handleSelectAllMembers_def by auto

theorem select_all_members_witness:
  "members sample_school = [m_owner, m_self, m_a, m_b]
   \<and> role m_owner = ''owner'' \<and> isCurrentUser (Some ''2'') m_self
   \<and> role m_a \<noteq> ''owner'' \<and> \<not> isCurrentUser (Some ''2'') m_a
   \<and> role m_b \<noteq> ''owner'' \<and> \<not> isCurrentUser (Some ''2'') m_b
   \<and> handleSelectAllMembers (Some ''2'') (Some sample_school) True = [m_a, m_b]
   \<and> handleSelectAllMembers (Some ''2'') (Some sample_school) False = []"
proof -
  have h: "members sample_school = [m_owner, m_self, m_a, m_b]
           \<and> role m_owner = ''owner'' \<and> isCurrentUser (Some ''2'') m_self
           \<and> role m_a \<noteq> ''owner'' \<and> \<not> isCurrentUser (Some ''2'') m_a
           \<and> role m_b \<noteq> ''owner'' \<and> \<not> isCurrentUser (Some ''2'') m_b"
    by (simp add: sample_school_def sample_current_user sample_roles)
  note t = select_all_members
             [where sess = "Some ''2''" and s = sample_school and sch = "Some sample_school"
                and owner = m_owner and self = m_self and a = m_a and b = m_b]
  from t h have "handleSelectAllMembers (Some ''2'') (Some sample_school) True = [m_a, m_b]"
    by blast
  moreover from t have "handleSelectAllMembers (Some ''2'') (Some sample_school) False = []"
    by blast
  ultimately show ?thesis using h by blast
qed

lemma handleMemberSelection_inv:
  "\<forall>m\<in>set sel. selectable sess m \<Longrightarrow> selectable sess member \<Longrightarrow>
   \<forall>m\<in>set (handleMemberSelection sess member sel). selectable sess m"
  by (auto simp: handleMemberSelection_def)

lemma handleSelectAllMembers_inv:
  "\<forall>m\<in>set (handleSelectAllMembers sess sch checked). selectable sess m"
  unfolding handleSelectAllMembers_def selectable_def
  by (cases sch; cases checked) simp_all

lemma row_controls_selectable:
  "row_controls_rendered sess sch member \<Longrightarrow> selectable sess member"
  by (simp add: row_controls_rendered_def selectable_def split: option.splits)

lemma selection_step_inv:
  assumes "\<forall>m\<in>set sel. selectable sess m"
  shows "\<forall>m\<in>set (selection_step sess sch sel ev). selectable sess m"
proof (cases ev)
  case (RowCheckbox member)
  then show ?thesis
    using assms handleMemberSelection_inv[OF assms row_controls_selectable] by simp
next
  case (SelectAllCheckbox checked)
  then show ?thesis using assms handleSelectAllMembers_inv by simp
next
  case (RowDeleteButton member)
  then show ?thesis using assms by simp
next
  case ConfirmDelete
  then show ?thesis by simp
qed

lemma selection_run_inv:
  "\<forall>m\<in>set sel. selectable sess m \<Longrightarrow>
   \<forall>m\<in>set (foldl (selection_step sess sch) sel evs). selectable sess m"
proof (induction evs arbitrary: sel)
  case Nil
  then show ?case by simp
next
  case (Cons ev evs)
  from selection_step_inv[OF Cons.prems]
  have "\<forall>m\<in>set (selection_step sess sch sel ev). selectable sess m" .
  from Cons.IH[OF this] show ?case by simp
qed

text \<open>
  \<^verbatim>\<open>handleMemberSelection\<close> itself returns early for the session's user only; it would add
  an owner handed to it. The owner is kept out by the condition under which the row's
  checkbox is rendered, the one place the handler is called from.
\<close>

lemma handleMemberSelection_alone:
  "\<not> isCurrentUser sess member \<Longrightarrow> handleMemberSelection sess member [] = [member]"
  by (simp add: handleMemberSelection_def)

lemma owner_row_has_no_checkbox:
  "role member = ''owner'' \<Longrightarrow> selection_step sess sch sel (RowCheckbox member) = sel"
  by (simp add: row_controls_rendered_def split: option.splits)

lemma self_row_has_no_checkbox:
  "isCurrentUser sess member \<Longrightarrow> selection_step sess sch sel (RowCheckbox member) = sel"
  by (simp add: row_controls_rendered_def split: option.splits)

text \<open>
  C8. After every sequence of selection events (a row's checkbox, select all checked or
  unchecked, a row's delete button, the confirmation of a removal), starting from the
  empty selection, no selected member has the role \<^verbatim>\<open>'owner'\<close> and none is the session's
  user.
\<close>

theorem selection_excludes_owner_and_self:
  "\<forall>m\<in>set (run_selection sess sch evs). role m \<noteq> ''owner'' \<and> \<not> isCurrentUser sess m"
  using selection_run_inv[of "[]" sess sch evs] by (simp add: run_selection_def selectable_def)

theorem selection_excludes_owner_and_self_witness:
  "run_selection (Some ''2'') (Some sample_school)
     [RowCheckbox m_owner, RowCheckbox m_self, RowCheckbox m_a, SelectAllCheckbox False,
      SelectAllCheckbox True, RowCheckbox m_a] = [m_b]
   \<and> role m_b \<noteq> ''owner'' \<and> \<not> isCurrentUser (Some ''2'') m_b"
proof -
  let ?evs = "[RowCheckbox m_owner, RowCheckbox m_self, RowCheckbox m_a, SelectAllCheckbox False,
               SelectAllCheckbox True, RowCheckbox m_a]"
  let ?step = "selection_step (Some ''2'') (Some sample_school)"
  have ra: "row_controls_rendered (Some ''2'') (Some sample_school) m_a"
    by (simp add: row_controls_rendered_def sample_school_def sample_current_user sample_roles)
  have hs: "hasSelectableMembers (Some ''2'') (Some sample_school)"
    by (simp add: hasSelectableMembers_def sample_school_def sample_current_user sample_roles)
  have s1: "?step [] (RowCheckbox m_owner) = []"
    by (rule owner_row_has_no_checkbox) (rule sample_roles)
  have s2: "?step [] (RowCheckbox m_self) = []"
    by (rule self_row_has_no_checkbox) (rule sample_current_user)
  have s3: "?step [] (RowCheckbox m_a) = [m_a]"
    by (simp add: ra handleMemberSelection_def sample_current_user)
  have s4: "?step [m_a] (SelectAllCheckbox False) = []"
    by (simp add: hs handleSelectAllMembers_def)
  have ms: "members sample_school = [m_owner, m_self, m_a, m_b]"
    by (simp add: sample_school_def)
  have s5: "?step [] (SelectAllCheckbox True) = [m_a, m_b]"
    by (simp add: hs handleSelectAllMembers_def ms sample_current_user sample_roles)
  have s6: "?step [m_a, m_b] (RowCheckbox m_a) = [m_b]"
    by (simp add: ra handleMemberSelection_def sample_current_user) (simp add: m_a_def m_b_def)
  have r: "run_selection (Some ''2'') (Some sample_school) ?evs = [m_b]"
    by (simp only: run_selection_def foldl.simps s1 s2 s3 s4 s5 s6)
  from selection_excludes_owner_and_self[of "Some ''2''" "Some sample_school" ?evs] r
  have "role m_b \<noteq> ''owner'' \<and> \<not> isCurrentUser (Some ''2'') m_b"
    by simp
  with r show ?thesis by simp
qed

end
